theory Spec2Isabelle
  imports Complex_Main "HOL-Library.Sublist"
begin

text \<open>
  A shallow embedding of the core of the Legal Guardian application: the speech trigger
  matcher (\<^verbatim>\<open>LegalSpeechAnalyzer\<close>), the session manager (\<^verbatim>\<open>SessionManager\<close>)
  with its mock analysis, and the state of the advisory component
  (\<^verbatim>\<open>RealTimeLegalAI\<close>). The definitions come first, in the order of the source
  files; the properties follow, one section per part.
\<close>

section \<open>Strings\<close>

text \<open>
  A JavaScript string is modelled by the list of its code units below 256 (the Latin-1
  range of UTF-16), which is what \<^typ>\<open>char\<close> holds. On that range
  \<^verbatim>\<open>toLowerCase\<close> adds 32 to the code units of A-Z and of the accented capitals
  (192..222 without the multiplication sign 215) and leaves every other unit alone, and the
  white space that \<^verbatim>\<open>trim\<close> strips is TAB, LF, VT, FF, CR, SPACE and NBSP.
\<close>

definition toLowerCaseChar :: "char \<Rightarrow> char" where
  "toLowerCaseChar c =
     (let n = (of_char c :: nat)
      in if (65 \<le> n \<and> n \<le> 90) \<or> (192 \<le> n \<and> n \<le> 222 \<and> n \<noteq> 215)
         then char_of (n + 32) else c)"

definition toLowerCase :: "string \<Rightarrow> string" where
  "toLowerCase s = map toLowerCaseChar s"

definition isWhiteSpace :: "char \<Rightarrow> bool" where
  "isWhiteSpace c = (let n = (of_char c :: nat) in (9 \<le> n \<and> n \<le> 13) \<or> n = 32 \<or> n = 160)"

definition str_trim :: "string \<Rightarrow> string" where
  "str_trim s = rev (dropWhile isWhiteSpace (rev (dropWhile isWhiteSpace s)))"

text \<open>\<^verbatim>\<open>s.includes(sub)\<close>: does \<open>sub\<close> start at some position of \<open>s\<close>?\<close>

fun str_includes :: "string \<Rightarrow> string \<Rightarrow> bool" where
  "str_includes [] sub = (sub = [])"
| "str_includes (c # cs) sub = (prefix sub (c # cs) \<or> str_includes cs sub)"

text \<open>\<^verbatim>\<open>s.split(sep)\<close> for a one-character separator: the pieces between the
  separators, empty pieces kept; the empty string gives one empty piece.\<close>

fun str_split :: "char \<Rightarrow> string \<Rightarrow> string list" where
  "str_split sep [] = [[]]"
| "str_split sep (c # cs) =
     (if c = sep then [] # str_split sep cs
      else (case str_split sep cs of
              [] \<Rightarrow> [[c]]
            | w # ws \<Rightarrow> (c # w) # ws))"

section \<open>The trigger table (LegalSpeechAnalyzer)\<close>

datatype level = Low | Medium | High

datatype category = Rights | Search | Detention | Documentation | General | Immigration

text \<open>
  The interface \<^verbatim>\<open>LegalTip\<close>. Its advisory text (field \<^verbatim>\<open>tip\<close>) starts with
  an emoji, which lies outside the modelled character range; the matcher never reads it, and
  the record leaves it out. Field \<^verbatim>\<open>id\<close> is \<open>tip_id\<close> here.
\<close>

record LegalTip =
  tip_id :: string
  trigger :: string
  urgency :: level
  category :: category

definition LEGAL_TIPS :: "LegalTip list" where
  "LEGAL_TIPS = [
    \<lparr>tip_id = ''id_request'',
     trigger = ''license|identification|id|show me your|can i see your'',
     urgency = Medium, category = Documentation\<rparr>,
    \<lparr>tip_id = ''search_request'',
     trigger = ''search|look through|check your|mind if i search|can i search'',
     urgency = High, category = Search\<rparr>,
    \<lparr>tip_id = ''step_out'',
     trigger = ''step out|exit the vehicle|get out of the car|out of the vehicle'',
     urgency = Medium, category = Detention\<rparr>,
    \<lparr>tip_id = ''arrest'',
     trigger = ''under arrest|placing you under arrest|arresting you|you are under arrest'',
     urgency = High, category = Rights\<rparr>,
    \<lparr>tip_id = ''why_stopped'',
     trigger = ''know why|pulled you over|stopped you|reason i stopped|why i pulled'',
     urgency = Low, category = General\<rparr>,
    \<lparr>tip_id = ''drinking_drugs'',
     trigger = ''drinking|drugs|alcohol|substances|been using|have you been'',
     urgency = Medium, category = Rights\<rparr>,
    \<lparr>tip_id = ''where_going'',
     trigger = ''where are you going|where you coming from|what are you doing|destination'',
     urgency = Low, category = General\<rparr>,
    \<lparr>tip_id = ''hands_behind'',
     trigger = ''hands behind|put your hands|stop resisting|calm down'',
     urgency = High, category = Detention\<rparr>,
    \<lparr>tip_id = ''immigration_status'',
     trigger = ''citizen|citizenship|immigration status|green card|papers|are you legal'',
     urgency = High, category = Immigration\<rparr>,
    \<lparr>tip_id = ''ice_agents'',
     trigger = ''ice|immigration enforcement|homeland security|deportation|removal|open the door'',
     urgency = High, category = Immigration\<rparr>,
    \<lparr>tip_id = ''consent'',
     trigger = ''consent|permission|okay if|mind if|can we|may we'',
     urgency = Medium, category = Rights\<rparr>,
    \<lparr>tip_id = ''detained'',
     trigger = ''detained|detaining|hold you|stay here|don't leave'',
     urgency = Medium, category = Detention\<rparr>,
    \<lparr>tip_id = ''miranda_rights'',
     trigger = ''right to remain silent|miranda|anything you say|used against you'',
     urgency = High, category = Rights\<rparr>,
    \<lparr>tip_id = ''recording'',
     trigger = ''recording|camera|phone|filming|video'',
     urgency = Low, category = Rights\<rparr>,
    \<lparr>tip_id = ''warrant'',
     trigger = ''warrant|court order|judge signed|search warrant'',
     urgency = Medium, category = Documentation\<rparr>,
    \<lparr>tip_id = ''user_silence'',
     trigger = ''i remain silent|right to remain silent|fifth amendment|staying silent'',
     urgency = Low, category = Rights\<rparr>,
    \<lparr>tip_id = ''user_lawyer'',
     trigger = ''i want a lawyer|i want an attorney|lawyer|attorney|immigration lawyer'',
     urgency = Low, category = Rights\<rparr>,
    \<lparr>tip_id = ''user_free_to_go'',
     trigger = ''am i free to go|am i being detained|am i under arrest'',
     urgency = Low, category = Detention\<rparr>,
    \<lparr>tip_id = ''user_no_consent'',
     trigger = ''i do not consent|i don't consent|no consent to search'',
     urgency = Low, category = Search\<rparr>,
    \<lparr>tip_id = ''user_recording'',
     trigger = ''recording this|i am recording|this is being recorded'',
     urgency = Low, category = General\<rparr>
  ]"

text \<open>
  \<^verbatim>\<open>analyzeSpeech\<close>. The inner loop walks the pieces of one tip's trigger string, the
  outer loop walks the table; both leave at the first hit.
\<close>

fun anyTrigger :: "string \<Rightarrow> string list \<Rightarrow> bool" where
  "anyTrigger lowerTranscript [] = False"
| "anyTrigger lowerTranscript (t # ts) =
     (if str_includes lowerTranscript (toLowerCase t) then True
      else anyTrigger lowerTranscript ts)"

fun scanTips :: "string \<Rightarrow> LegalTip list \<Rightarrow> LegalTip option" where
  "scanTips lowerTranscript [] = None"
| "scanTips lowerTranscript (tip # tips) =
     (if anyTrigger lowerTranscript (str_split CHR ''|'' (trigger tip)) then Some tip
      else scanTips lowerTranscript tips)"

definition analyzeSpeech :: "string \<Rightarrow> LegalTip option" where
  "analyzeSpeech transcript =
     (if transcript = [] \<or> length (str_trim transcript) = 0 then None
      else scanTips (toLowerCase transcript) LEGAL_TIPS)"

text \<open>The phrases a tip declares, and "some declared phrase of the tip occurs in the text".\<close>

definition phrases :: "LegalTip \<Rightarrow> string list" where
  "phrases tip = str_split CHR ''|'' (trigger tip)"

definition triggered :: "string \<Rightarrow> LegalTip \<Rightarrow> bool" where
  "triggered lowerTranscript tip = (\<exists>p \<in> set (phrases tip). sublist p lowerTranscript)"


section \<open>Sessions (SessionManager)\<close>

subsection \<open>Numbers as text\<close>

text \<open>
  Times, durations and counters are integers. \<open>showInt\<close> is the decimal text a template
  literal gives an integer (below \<open>10^21\<close>, where JavaScript still prints every digit).
\<close>

definition digitChar :: "nat \<Rightarrow> char" where
  "digitChar d = ''0123456789'' ! d"

function showNat :: "nat \<Rightarrow> string" where
  "showNat n = (if n < 10 then [digitChar n] else showNat (n div 10) @ [digitChar (n mod 10)])"
  by pat_completeness auto
termination
  by (relation "measure (\<lambda>n. n)") auto

declare showNat.simps [simp del]

definition showInt :: "int \<Rightarrow> string" where
  "showInt i = (if i < 0 then CHR ''-'' # showNat (nat (- i)) else showNat (nat i))"

definition padStart :: "nat \<Rightarrow> char \<Rightarrow> string \<Rightarrow> string" where
  "padStart n c s = replicate (n - length s) c @ s"

text \<open>\<^verbatim>\<open>formatDuration\<close>: \<^verbatim>\<open>Math.floor(seconds / 60)\<close> rounds down, and
  \<^verbatim>\<open>seconds % 60\<close> takes the sign of \<open>seconds\<close>.\<close>

definition formatDuration :: "int \<Rightarrow> string" where
  "formatDuration seconds =
     (let mins = seconds div 60;
          secs = (if 0 \<le> seconds then seconds mod 60 else - ((- seconds) mod 60))
      in showInt mins @ '':'' @ padStart 2 CHR ''0'' (showInt secs))"

subsection \<open>Session records\<close>

datatype session_status = Complete | Processing | Failed

datatype session_quality = Excellent | Good | Fair | Poor

datatype urgency_level = Normal | Urgent | Critical

text \<open>
  A scenario template of \<^verbatim>\<open>generateMockAnalysis\<close>; the analysis stored in a session
  (\<^verbatim>\<open>SessionData['aiAnalysis']\<close>) is a template with \<open>confidence\<close> and
  \<open>analysisTimestamp\<close> added. An optional field is an \<open>option\<close>, \<open>None\<close> where the
  object has no such key.
\<close>

record Scenario =
  summary :: string
  situationType :: string
  riskLevel :: level
  whatWentWell :: "string list"
  areasForImprovement :: "string list"
  legalTips :: "string list"
  legalRedFlags :: "string list"
  recommendedActions :: "string list"
  requiresLegalAttention :: "bool option"
  lawyerRecommendation :: "string option"
  urgencyLevel :: "urgency_level option"

record AnalysisResult = Scenario +
  confidence :: real
  analysisTimestamp :: int

record ProcessingSteps =
  recording :: bool
  transcription :: bool
  analysis :: bool

text \<open>The interface \<^verbatim>\<open>SessionData\<close> (field \<^verbatim>\<open>id\<close> is \<open>session_id\<close>; the
  \<^verbatim>\<open>audioBlob\<close>, which no code sets, is left out).\<close>

record SessionData =
  session_id :: string
  date :: string
  time :: string
  duration :: string
  snippet :: string
  status :: session_status
  quality :: session_quality
  audioUrl :: "string option"
  transcript :: "string option"
  aiAnalysis :: "AnalysisResult option"
  processingSteps :: "ProcessingSteps option"
  createdAt :: "int option"
  isRealSession :: "bool option"




text \<open>\<^verbatim>\<open>Array.prototype.findIndex\<close>, with \<open>None\<close> for \<open>-1\<close>.\<close>

fun findIndex :: "('a \<Rightarrow> bool) \<Rightarrow> 'a list \<Rightarrow> nat option" where
  "findIndex p [] = None"
| "findIndex p (x # xs) = (if p x then Some 0 else map_option Suc (findIndex p xs))"

subsection \<open>The mock analysis\<close>


definition scenarios :: "Scenario list" where
  "scenarios = [
    \<lparr>summary = ''Police interaction regarding routine questioning. You demonstrated good knowledge of your rights and maintained professional communication throughout the encounter.'',
     situationType = ''Police Stop'',
     riskLevel = Medium,
     whatWentWell = [''Clearly asked about detention status before complying'',
        ''Maintained respectful tone while asserting rights'',
        ''Informed officer about recording for transparency'',
        ''Stayed calm and composed throughout interaction'',
        ''Provided required identification when legally obligated''],
     areasForImprovement = [''Could have asked for officer badge number earlier'',
        ''Consider stating your name more clearly at the beginning'',
        ''Ask about the specific reason for the stop'',
        ''Request written documentation if citations are issued''],
     legalTips = [''Always ask \"Am I being detained?\" to clarify your legal status'',
        ''You have the right to remain silent beyond providing basic identification'',
        ''Recording police interactions is legal in most jurisdictions'',
        ''Stay calm and avoid sudden movements during encounters'',
        ''You can ask for the officer's name and badge number'',
        ''If not detained, you have the right to leave''],
     legalRedFlags = [''Officer initially avoided answering detention question directly'',
        ''No clear reason provided for the initial stop''],
     recommendedActions = [''Document the interaction details while fresh in memory'',
        ''Note the officer's badge number and patrol car number'',
        ''Save this recording in a secure location'',
        ''Consider filing a complaint if rights were violated''],
     requiresLegalAttention = Some False,
     lawyerRecommendation = None,
     urgencyLevel = None\<rparr>,
    \<lparr>summary = ''Workplace incident involving policy discussion with supervisor. You maintained professionalism and properly documented the conversation.'',
     situationType = ''Workplace Dispute'',
     riskLevel = Medium,
     whatWentWell = [''Requested to record the conversation for accuracy'',
        ''Asked for clarification on policy changes'',
        ''Maintained professional demeanor throughout'',
        ''Requested written confirmation of new policies'',
        ''Stayed focused on facts rather than emotions''],
     areasForImprovement = [''Could have requested HR presence for policy discussions'',
        ''Ask for specific policy document references'',
        ''Request meeting summary in writing'',
        ''Consider involving union representative if applicable''],
     legalTips = [''Document all workplace policy discussions'',
        ''Request written confirmation of policy changes'',
        ''Know your rights regarding overtime compensation'',
        ''HR should be involved in significant policy disputes'',
        ''Keep records of all work-related communications'',
        ''Understand your state's labor laws''],
     legalRedFlags = [''Policy change mentioned without proper written notice'',
        ''Supervisor seemed reluctant to provide documentation''],
     recommendedActions = [''Follow up with HR about the policy discussion'',
        ''Request written copy of the new overtime policy'',
        ''Document any changes to your work schedule'',
        ''Consult with employment attorney if needed''],
     requiresLegalAttention = Some True,
     lawyerRecommendation = Some ''Consider consulting with an employment lawyer to review workplace policy changes and ensure your rights are protected.'',
     urgencyLevel = Some Normal\<rparr>,
    \<lparr>summary = ''Consumer rights issue with store management. You effectively challenged the policy and sought reasonable resolution.'',
     situationType = ''Consumer Rights'',
     riskLevel = Low,
     whatWentWell = [''Clearly explained your position with evidence'',
        ''Remained calm despite initial refusal'',
        ''Offered alternative proof of purchase'',
        ''Documented the interaction by recording'',
        ''Sought manager involvement for resolution''],
     areasForImprovement = [''Reference specific consumer protection laws'',
        ''Ask for store policy documentation'',
        ''Request escalation to corporate level'',
        ''Consider filing complaints with regulatory agencies''],
     legalTips = [''Keep all receipts and documentation'',
        ''Know your consumer protection rights'',
        ''Document all communications with businesses'',
        ''Understand return and refund policies before purchasing'',
        ''File complaints with Better Business Bureau if needed'',
        ''Consider small claims court for unresolved disputes''],
     legalRedFlags = [''Store policy may violate consumer protection laws'',
        ''Manager initially refused to check alternative proof''],
     recommendedActions = [''Follow up with store corporate customer service'',
        ''File complaint with state consumer protection agency'',
        ''Keep detailed records of all communications'',
        ''Consider disputing charge with credit card company''],
     requiresLegalAttention = Some False,
     lawyerRecommendation = None,
     urgencyLevel = None\<rparr>,
    \<lparr>summary = ''ICE encounter involving immigration status questions and potential detention threats. Critical situation requiring immediate legal intervention.'',
     situationType = ''ICE Encounter'',
     riskLevel = High,
     whatWentWell = [''Attempted to remain silent about immigration status'',
        ''Tried to record the interaction'',
        ''Asked about warrant requirements''],
     areasForImprovement = [''Should have been more assertive about warrant requirements'',
        ''Could have requested to speak through the door'',
        ''Should have immediately requested immigration lawyer''],
     legalTips = [''Never open door without judicial warrant signed by judge'',
        ''Administrative warrants do not authorize home entry'',
        ''You have right to remain silent about immigration status'',
        ''Request immigration lawyer immediately'',
        ''Do not sign any documents without legal representation''],
     legalRedFlags = [''ICE agents threatened entry without proper warrant'',
        ''Questions about immigration status and citizenship'',
        ''Pressure to sign voluntary departure documents''],
     recommendedActions = [''Contact immigration lawyer immediately'',
        ''Document all details of the encounter'',
        ''Notify family members and community organizations'',
        ''Prepare emergency plan for family members''],
     requiresLegalAttention = Some True,
     lawyerRecommendation = Some ''URGENT: This ICE encounter requires immediate immigration legal assistance. Contact an immigration attorney right away. Do not sign any documents without legal representation.'',
     urgencyLevel = Some Critical\<rparr>
  ]"

text \<open>
  \<^verbatim>\<open>generateMockAnalysis\<close>; \<open>now\<close> is the clock reading of its \<^verbatim>\<open>new Date()\<close>.
  The duration is a parameter the body never reads.
\<close>

definition generateMockAnalysis :: "int \<Rightarrow> string \<Rightarrow> int \<Rightarrow> AnalysisResult" where
  "generateMockAnalysis now transcriptText durationSeconds =
     (let lowerTranscript = toLowerCase transcriptText;
          selectedScenario =
            (if str_includes lowerTranscript ''arrest'' \<or> str_includes lowerTranscript ''search''
                \<or> str_includes lowerTranscript ''probable cause''
             then scenarios ! 0
             else if str_includes lowerTranscript ''ice''
                \<or> str_includes lowerTranscript ''immigration''
                \<or> str_includes lowerTranscript ''citizen''
             then scenarios ! 3
             else if str_includes lowerTranscript ''workplace''
                \<or> str_includes lowerTranscript ''supervisor''
                \<or> str_includes lowerTranscript ''overtime''
             then scenarios ! 1
             else if str_includes lowerTranscript ''store''
                \<or> str_includes lowerTranscript ''return''
                \<or> str_includes lowerTranscript ''receipt''
             then scenarios ! 2
             else scenarios ! 0)
      in Scenario.extend selectedScenario (AnalysisResult.fields 0.9 now))"

text \<open>\<^verbatim>\<open>determineQuality\<close>, on a confidence that is a number (a real; the decimal
  thresholds compare the same way as doubles).\<close>

definition determineQuality :: "real \<Rightarrow> session_quality" where
  "determineQuality c =
     (if c \<ge> 0.9 then Excellent
      else if c \<ge> 0.8 then Good
      else if c \<ge> 0.6 then Fair
      else Poor)"


subsection \<open>The manager\<close>

text \<open>
  The state of the \<^verbatim>\<open>SessionManager\<close> singleton. \<open>delivered\<close> records what
  \<^verbatim>\<open>notifyListeners\<close> hands out: one copy of the collection per call, the latest last;
  every registered listener receives exactly these. The storage collaborators
  (\<^verbatim>\<open>SessionStorage\<close>, \<^verbatim>\<open>storageUtils\<close>) are not part of the state: each of their
  methods catches whatever is raised inside it and answers with a boolean that the manager
  throws away, so a storage call changes neither the fields below nor the path taken.
  A \<^verbatim>\<open>Date\<close> is what the code reads from it.
\<close>

record SessionManager =
  sessions :: "SessionData list"
  currentSession :: "SessionData option"
  recordingStartTime :: int
  isInitialized :: bool
  delivered :: "SessionData list list"

record JSDate =
  getTime :: int
  toLocaleDateString :: string
  toLocaleTimeString :: string

record Location =
  latitude :: real
  longitude :: real
  address :: string

record SessionMetadata =
  location :: "Location option"
  customTitle :: "string option"

definition notifyListeners :: "SessionManager \<Rightarrow> SessionManager" where
  "notifyListeners m = m\<lparr>delivered := delivered m @ [sessions m]\<rparr>"

text \<open>\<^verbatim>\<open>getSessions\<close>. An uninitialised manager first runs \<^verbatim>\<open>initializeStorage\<close>,
  which replaces the collection by what storage holds (or the mock data); \<open>loaded\<close> is that
  collection.\<close>

definition getSessions :: "SessionData list \<Rightarrow> SessionManager \<Rightarrow> SessionManager \<times> SessionData list" where
  "getSessions loaded m =
     (let m' = (if \<not> isInitialized m then m\<lparr>sessions := loaded, isInitialized := True\<rparr> else m)
      in (m', sessions m'))"

text \<open>\<^verbatim>\<open>startSession\<close>: no test of the slot; the new session is stored in it and returned.\<close>

definition startSession ::
  "SessionMetadata \<Rightarrow> JSDate \<Rightarrow> SessionManager \<Rightarrow> SessionManager \<times> SessionData" where
  "startSession metadata now m =
     (let sessionId = ''session_'' @ showInt (getTime now);
          new = \<lparr>session_id = sessionId,
                 date = toLocaleDateString now,
                 time = toLocaleTimeString now,
                 duration = ''00:00'',
                 snippet = ''Recording in progress...'',
                 status = Processing,
                 quality = Good,
                 audioUrl = None, transcript = None, aiAnalysis = None, processingSteps = None,
                 createdAt = Some (getTime now),
                 isRealSession = Some True\<rparr>
      in (m\<lparr>currentSession := Some new, recordingStartTime := getTime now\<rparr>, new))"

text \<open>\<^verbatim>\<open>endSession\<close>: \<open>None\<close> without an active session; otherwise the session gets
  its duration, goes to the front of the collection, the listeners are told, and the slot is
  cleared.\<close>

definition endSession :: "JSDate \<Rightarrow> SessionManager \<Rightarrow> SessionManager \<times> SessionData option" where
  "endSession now m =
     (case currentSession m of
        None \<Rightarrow> (m, None)
      | Some cur \<Rightarrow>
          (let durationMs = getTime now - recordingStartTime m;
               durationSec = durationMs div 1000;
               ended = cur\<lparr>duration := formatDuration durationSec,
                           snippet := ''Processing session analysis...'',
                           status := Processing\<rparr>;
               m1 = notifyListeners (m\<lparr>sessions := ended # sessions m\<rparr>)
           in (m1\<lparr>currentSession := None, recordingStartTime := 0\<rparr>, Some ended)))"


text \<open>
  \<^verbatim>\<open>saveSession\<close> builds a session, puts it at the front, tells the listeners, and sets a
  timer of 3000 ms for the analysis; it returns the session. The timer's callback closes
  over \<open>sessionId\<close> and \<open>duration\<close>: that is the \<open>AnalysisJob\<close> returned beside the
  session. \<open>dateNow\<close> is the reading of \<^verbatim>\<open>Date.now()\<close>.
\<close>

record AnalysisJob =
  job_sessionId :: string
  job_duration :: int
  job_delay :: nat

definition saveSession ::
  "JSDate \<Rightarrow> int \<Rightarrow> int \<Rightarrow> string option \<Rightarrow> SessionManager
     \<Rightarrow> SessionManager \<times> SessionData \<times> AnalysisJob" where
  "saveSession now dateNow durationSeconds audioUri m =
     (let sessionId = ''session_'' @ showInt (getTime now);
          newSession = \<lparr>session_id = sessionId,
                 date = toLocaleDateString now,
                 time = toLocaleTimeString now,
                 duration = formatDuration durationSeconds,
                 snippet = ''Processing session analysis...'',
                 status = Processing,
                 quality = Good,
                 audioUrl = Some (case audioUri of
                                    None \<Rightarrow> ''recording_'' @ sessionId
                                  | Some uri \<Rightarrow> if uri = [] then ''recording_'' @ sessionId else uri),
                 transcript = None, aiAnalysis = None,
                 processingSteps = Some \<lparr>recording = True, transcription = False, analysis = False\<rparr>,
                 createdAt = Some dateNow,
                 isRealSession = Some True\<rparr>;
          m1 = notifyListeners (m\<lparr>sessions := newSession # sessions m\<rparr>)
      in (m1, newSession, \<lparr>job_sessionId = sessionId, job_duration = durationSeconds, job_delay = 3000\<rparr>))"

text \<open>
  The timer's callback. What the two awaited mock steps do in one run is given by a
  \<open>PipelineRun\<close>: the exception a step raises, if it raises one, the random draw of the
  transcript, and the clock reading of the analysis. \<open>tryBlock\<close> is the body of
  \<^verbatim>\<open>try\<close>: \<open>Inl\<close> carries the exception together with the state reached when it was
  raised, \<open>Inr\<close> the state after the last statement. \<open>runAnalysisJob\<close> is the callback:
  the \<^verbatim>\<open>catch\<close> clause takes every exception of the body.
\<close>

datatype error = Error string

record PipelineRun =
  transcriptionError :: "error option"
  randomDraw :: nat
  analysisError :: "error option"
  analysisNow :: int




text \<open>\<^verbatim>\<open>deleteSession\<close>: \<^verbatim>\<open>splice(index, 1)\<close> takes out the first session with the
  id.\<close>

definition deleteSession :: "string \<Rightarrow> SessionManager \<Rightarrow> SessionManager \<times> bool" where
  "deleteSession sessionId m =
     (case findIndex (\<lambda>s. session_id s = sessionId) (sessions m) of
        None \<Rightarrow> (m, False)
      | Some index \<Rightarrow>
          (notifyListeners
             (m\<lparr>sessions := take index (sessions m) @ drop (Suc index) (sessions m)\<rparr>), True))"









section \<open>The advisory component (RealTimeLegalAI)\<close>

text \<open>
  \<open>Component\<close> is what the component keeps between renders: its state variables, the
  pending auto-hide timer behind \<^verbatim>\<open>tipTimeoutRef\<close> (\<open>None\<close> when none is pending: never
  set, fired or cleared), and the calls made so far to \<^verbatim>\<open>speakTip\<close> and to the
  \<^verbatim>\<open>onTipDetected\<close> callback. The functions of the component body are closures made
  during a render; inside them a state variable or a prop is the value of that render.
  \<open>Closure\<close> holds those values. State setters (with their updater functions) and the ref
  act on the live state. A \<open>TimerHandle\<close> is a scheduled auto-hide: its delay, the tip
  that scheduled it, and the value of \<^verbatim>\<open>currentTip\<close> inside the closure that made
  the callback.
\<close>

record TimerHandle =
  hideDelay :: nat
  timerTip :: LegalTip
  closureTip :: "LegalTip option"

record Component =
  currentTip :: "LegalTip option"
  isListening :: bool
  detectedPhrases :: "string list"
  tipHistory :: "LegalTip list"
  tipTimeout :: "TimerHandle option"
  spokenTips :: "LegalTip list"
  reportedTips :: "LegalTip list"

record Closure =
  seenCurrentTip :: "LegalTip option"
  seenIsListening :: bool
  seenTipHistory :: "LegalTip list"
  speakTips :: bool
  onTipDetected :: bool

definition initialComponent :: Component where
  "initialComponent = \<lparr>currentTip = None, isListening = False, detectedPhrases = [],
     tipHistory = [], tipTimeout = None, spokenTips = [], reportedTips = []\<rparr>"

text \<open>\<^verbatim>\<open>xs.slice(-n)\<close>: the last \<open>n\<close> elements, all of them when there are fewer.\<close>

definition slice_last :: "nat \<Rightarrow> 'a list \<Rightarrow> 'a list" where
  "slice_last n xs = drop (length xs - n) xs"

text \<open>\<^verbatim>\<open>detectPhrase\<close>. Setting the new timer after \<^verbatim>\<open>clearTimeout\<close> of the old one
  leaves the new one as the only pending timer.\<close>

definition detectPhrase :: "Closure \<Rightarrow> string \<Rightarrow> LegalTip \<Rightarrow> Component \<Rightarrow> Component" where
  "detectPhrase cl phrase tip st =
     st\<lparr>detectedPhrases := slice_last 4 (detectedPhrases st) @ [phrase],
        tipHistory := tipHistory st @ [tip],
        currentTip := Some tip,
        spokenTips := (if speakTips cl then spokenTips st @ [tip] else spokenTips st),
        reportedTips := (if onTipDetected cl then reportedTips st @ [tip] else reportedTips st),
        tipTimeout :=
          Some \<lparr>hideDelay = (if urgency tip = High then 12000
                              else if urgency tip = Medium then 10000 else 8000),
                timerTip = tip,
                closureTip = seenCurrentTip cl\<rparr>\<rparr>"

text \<open>\<^verbatim>\<open>processDetectedSpeech\<close>: nothing without a detected tip; with one, the same
  statements as \<^verbatim>\<open>detectPhrase\<close>, on the recognised text.\<close>

definition processDetectedSpeech :: "Closure \<Rightarrow> string \<Rightarrow> Component \<Rightarrow> Component" where
  "processDetectedSpeech cl spoken st =
     (case analyzeSpeech spoken of
        None \<Rightarrow> st
      | Some detectedTip \<Rightarrow> detectPhrase cl spoken detectedTip st)"

text \<open>The timer's callback: \<^verbatim>\<open>if (currentTip?.id === detectedTip.id) setCurrentTip(null)\<close>,
  with the closure's \<^verbatim>\<open>currentTip\<close>.\<close>

definition timerFires :: "Component \<Rightarrow> Component" where
  "timerFires st =
     (case tipTimeout st of
        None \<Rightarrow> st
      | Some h \<Rightarrow>
          (if map_option tip_id (closureTip h) = Some (tip_id (timerTip h))
           then st\<lparr>currentTip := None, tipTimeout := None\<rparr>
           else st\<lparr>tipTimeout := None\<rparr>))"

definition dismissTip :: "Component \<Rightarrow> Component" where
  "dismissTip st = st\<lparr>tipTimeout := None, currentTip := None\<rparr>"

definition startListening :: "Closure \<Rightarrow> Component \<Rightarrow> Component" where
  "startListening cl st =
     (if seenIsListening cl then st else st\<lparr>isListening := True, tipHistory := []\<rparr>)"

definition stopListening :: "Closure \<Rightarrow> Component \<Rightarrow> Component" where
  "stopListening cl st =
     (if \<not> seenIsListening cl then st
      else st\<lparr>isListening := False, currentTip := None, tipTimeout := None\<rparr>)"

text \<open>The tips the fallback generator draws from: those not among the last three of the
  history the closure sees.\<close>

definition availableTips :: "Closure \<Rightarrow> LegalTip list" where
  "availableTips cl =
     filter (\<lambda>tip. \<not> list_ex (\<lambda>recent. tip_id recent = tip_id tip)
                         (slice_last 3 (seenTipHistory cl)))
       LEGAL_TIPS"

text \<open>What can happen to the component, and a sequence of such events from a state.\<close>

datatype event =
    Speech Closure string
  | Phrase Closure string LegalTip
  | TimerFires
  | Dismiss
  | Start Closure
  | Stop Closure

fun step :: "Component \<Rightarrow> event \<Rightarrow> Component" where
  "step st (Speech cl spoken) = processDetectedSpeech cl spoken st"
| "step st (Phrase cl phrase tip) = detectPhrase cl phrase tip st"
| "step st TimerFires = timerFires st"
| "step st Dismiss = dismissTip st"
| "step st (Start cl) = startListening cl st"
| "step st (Stop cl) = stopListening cl st"

definition runEvents :: "event list \<Rightarrow> Component \<Rightarrow> Component" where
  "runEvents es st = foldl step st es"

text \<open>The tip an event detects, if it detects one, and whether an event empties the
  history.\<close>

fun detectedTip :: "event \<Rightarrow> LegalTip option" where
  "detectedTip (Speech cl spoken) = analyzeSpeech spoken"
| "detectedTip (Phrase cl phrase tip) = Some tip"
| "detectedTip TimerFires = None"
| "detectedTip Dismiss = None"
| "detectedTip (Start cl) = None"
| "detectedTip (Stop cl) = None"

fun clearsHistory :: "event \<Rightarrow> bool" where
  "clearsHistory (Start cl) = (\<not> seenIsListening cl)"
| "clearsHistory (Speech cl spoken) = False"
| "clearsHistory (Phrase cl phrase tip) = False"
| "clearsHistory TimerFires = False"
| "clearsHistory Dismiss = False"
| "clearsHistory (Stop cl) = False"

text \<open>While a timer is pending, the visible tip is the tip that scheduled it.\<close>

definition timerOwned :: "Component \<Rightarrow> bool" where
  "timerOwned st =
     (case tipTimeout st of None \<Rightarrow> True | Some h \<Rightarrow> currentTip st = Some (timerTip h))"

text \<open>A closure for the examples, made while listening with no tip shown.\<close>

definition closureIdle :: Closure where
  "closureIdle = \<lparr>seenCurrentTip = None, seenIsListening = True, seenTipHistory = [],
     speakTips = False, onTipDetected = True\<rparr>"

text \<open>Four detections in a row (tips of the table at positions 0 to 3).\<close>

definition fourDetections :: "event list" where
  "fourDetections =
     [Phrase closureIdle ''license'' (LEGAL_TIPS ! 0),
      Phrase closureIdle ''search'' (LEGAL_TIPS ! 1),
      Phrase closureIdle ''step out'' (LEGAL_TIPS ! 2),
      Phrase closureIdle ''under arrest'' (LEGAL_TIPS ! 3)]"

text \<open>
  The closure of the render in which recording began: no tip shown, not yet listening, an
  empty history. Its \<^verbatim>\<open>startListening\<close> registers the speech callback, so every
  recognised text of the recording is handled by the \<^verbatim>\<open>processDetectedSpeech\<close> of
  this closure. \<open>speechAfterStart\<close>: listening starts and one sentence is recognised.
  \<open>speechThenFour\<close>: one recognised sentence, its timer firing, and four more detections.
\<close>

definition closureAtStart :: Closure where
  "closureAtStart = \<lparr>seenCurrentTip = None, seenIsListening = False, seenTipHistory = [],
     speakTips = True, onTipDetected = True\<rparr>"

definition speechAfterStart :: "event list" where
  "speechAfterStart =
     [Start closureAtStart, Speech closureAtStart ''Do you know why I pulled you over?'']"

definition speechThenFour :: "event list" where
  "speechThenFour =
     Speech closureAtStart ''Do you know why I pulled you over?'' # TimerFires # fourDetections"

subsection \<open>Example inputs\<close>

definition emptyManager :: SessionManager where
  "emptyManager = \<lparr>sessions = [], currentSession = None, recordingStartTime = 0,
     isInitialized = True, delivered = []\<rparr>"

definition dateAt :: "int \<Rightarrow> JSDate" where
  "dateAt t = \<lparr>getTime = t, toLocaleDateString = ''January 15, 2025'',
     toLocaleTimeString = ''3:14 PM''\<rparr>"

definition noMetadata :: SessionMetadata where
  "noMetadata = \<lparr>location = None, customTitle = None\<rparr>"

text \<open>"The lower-cased transcript holds the keyword."\<close>

definition mentions :: "string \<Rightarrow> string \<Rightarrow> bool" where
  "mentions transcriptText keyword = sublist keyword (toLowerCase transcriptText)"

text \<open>A manager with one recording under way, started at time 1000; a manager holding the
  two sessions saved at times 2000 and 3000; a run of the analysis in which the analysis
  step raises.\<close>

definition recordingManager :: SessionManager where
  "recordingManager = fst (startSession noMetadata (dateAt 1000) emptyManager)"

definition twoSessions :: SessionManager where
  "twoSessions =
     fst (saveSession (dateAt 3000) 3000 60 None
            (fst (saveSession (dateAt 2000) 2000 154 (Some ''ref-1'') emptyManager)))"

definition failingRun :: PipelineRun where
  "failingRun = \<lparr>transcriptionError = None, randomDraw = 5,
     analysisError = Some (Error ''analysis step raised''), analysisNow = 9000\<rparr>"

text \<open>A manager after two \<open>saveSession\<close> calls made at the same clock reading 7000.\<close>

definition sameTimeSaves :: SessionManager where
  "sameTimeSaves =
     fst (saveSession (dateAt 7000) 7000 60 None
            (fst (saveSession (dateAt 7000) 7000 154 (Some ''ref-1'') emptyManager)))"

section \<open>Properties of the matcher\<close>

lemma str_includes_sublist: "str_includes s sub = sublist sub s"
  by (induction s) (auto simp: sublist_Cons_right)


lemma anyTrigger_iff: "anyTrigger lt ps = (\<exists>p \<in> set ps. sublist (toLowerCase p) lt)"
  by (induction ps) (auto simp: str_includes_sublist)

lemma scanTips_None_iff:
  "scanTips lt tips = None \<longleftrightarrow> (\<forall>tip \<in> set tips. \<not> anyTrigger lt (phrases tip))"
  by (induction tips) (auto simp: phrases_def)

lemma scanTips_first:
  "\<exists>tip \<in> set tips. anyTrigger lt (phrases tip) \<Longrightarrow>
   \<exists>i < length tips. scanTips lt tips = Some (tips ! i) \<and> anyTrigger lt (phrases (tips ! i))
      \<and> (\<forall>j < i. \<not> anyTrigger lt (phrases (tips ! j)))"
proof (induction tips)
  case Nil
  then show ?case by simp
next
  case (Cons tip tips)
  show ?case
  proof (cases "anyTrigger lt (phrases tip)")
    case True
    then have "scanTips lt (tip # tips) = Some ((tip # tips) ! 0)" by (simp add: phrases_def)
    with True show ?thesis by fastforce
  next
    case False
    with Cons.prems have "\<exists>t \<in> set tips. anyTrigger lt (phrases t)" by auto
    from Cons.IH [OF this] obtain i where i: "i < length tips" "scanTips lt tips = Some (tips ! i)"
      "anyTrigger lt (phrases (tips ! i))" "\<forall>j < i. \<not> anyTrigger lt (phrases (tips ! j))" by blast
    have "\<forall>j < Suc i. \<not> anyTrigger lt (phrases ((tip # tips) ! j))"
      using False i(4) by (auto simp: less_Suc_eq_0_disj)
    with i False show ?thesis
      by (intro exI [of _ "Suc i"]) (simp add: phrases_def)
  qed
qed

text \<open>Every declared phrase is already lower case, is not empty and starts with a
  character that is not white space.\<close>

lemma table_phrases:
  "\<forall>tip \<in> set LEGAL_TIPS. \<forall>p \<in> set (phrases tip).
     toLowerCase p = p \<and> p \<noteq> [] \<and> \<not> isWhiteSpace (hd p)"
  by code_simp

lemma anyTrigger_triggered:
  "tip \<in> set LEGAL_TIPS \<Longrightarrow> anyTrigger lt (phrases tip) = triggered lt tip"
  using table_phrases by (auto simp: anyTrigger_iff triggered_def)

lemma trim_empty_all_ws:
  assumes "length (str_trim s) = 0"
  shows "\<forall>c \<in> set s. isWhiteSpace c"
proof -
  let ?d = "dropWhile isWhiteSpace s"
  from assms have all: "\<forall>c \<in> set ?d. isWhiteSpace c"
    by (simp add: str_trim_def dropWhile_eq_Nil_conv)
  have "?d = []"
  proof (rule ccontr)
    assume ne: "?d \<noteq> []"
    then have "\<not> isWhiteSpace (hd ?d)" by (rule hd_dropWhile)
    moreover from ne have "hd ?d \<in> set ?d" by simp
    ultimately show False using all by blast
  qed
  then show ?thesis by (simp add: dropWhile_eq_Nil_conv)
qed

lemma all_ws_trim_empty:
  assumes "\<forall>c \<in> set s. isWhiteSpace c"
  shows "length (str_trim s) = 0"
  using assms by (auto simp: str_trim_def dest: set_dropWhileD)

lemma toLowerCaseChar_ws: "isWhiteSpace c \<Longrightarrow> toLowerCaseChar c = c"
  by (auto simp: isWhiteSpace_def toLowerCaseChar_def Let_def)

lemma sublist_hd_mem: "sublist p s \<Longrightarrow> p \<noteq> [] \<Longrightarrow> hd p \<in> set s"
  by (auto simp: sublist_def neq_Nil_conv)

text \<open>A text that holds a declared phrase passes the guard at the head of
  \<^verbatim>\<open>analyzeSpeech\<close>: it is neither empty nor white space only.\<close>

lemma triggered_not_blank:
  assumes "tip \<in> set LEGAL_TIPS" and "triggered (toLowerCase spoken) tip"
  shows "\<not> (spoken = [] \<or> length (str_trim spoken) = 0)"
proof -
  from assms obtain p where p: "p \<in> set (phrases tip)" "sublist p (toLowerCase spoken)"
    by (auto simp: triggered_def)
  with assms(1) table_phrases have ne: "p \<noteq> []" and nws: "\<not> isWhiteSpace (hd p)" by auto
  from sublist_hd_mem [OF p(2) ne] obtain c
    where c: "c \<in> set spoken" "hd p = toLowerCaseChar c"
    by (auto simp: toLowerCase_def)
  have "\<not> isWhiteSpace c" using nws c(2) toLowerCaseChar_ws [of c] by auto
  with c(1) trim_empty_all_ws [of spoken] show ?thesis by auto
qed

text \<open>
  Claim C1. Whenever the lower-cased transcript holds a declared trigger phrase of some tip,
  \<open>analyzeSpeech\<close> returns a tip of the table, that tip is triggered (one of its phrases,
  the trigger string split at the bar, occurs in the lower-cased transcript), and no tip
  declared before it is triggered: the first declared tip wins, also where phrases of
  several tips overlap.
\<close>

theorem analyzeSpeech_first_declared:
  assumes "\<exists>tip \<in> set LEGAL_TIPS. triggered (toLowerCase spoken) tip"
  shows "\<exists>i < length LEGAL_TIPS.
           analyzeSpeech spoken = Some (LEGAL_TIPS ! i)
         \<and> triggered (toLowerCase spoken) (LEGAL_TIPS ! i)
         \<and> (\<forall>j < i. \<not> triggered (toLowerCase spoken) (LEGAL_TIPS ! j))"
proof -
  let ?lt = "toLowerCase spoken"
  from assms triggered_not_blank
  have guard: "\<not> (spoken = [] \<or> length (str_trim spoken) = 0)" by blast
  from assms have "\<exists>tip \<in> set LEGAL_TIPS. anyTrigger ?lt (phrases tip)"
    by (auto simp: anyTrigger_triggered)
  from scanTips_first [OF this] obtain i where i: "i < length LEGAL_TIPS"
    "scanTips ?lt LEGAL_TIPS = Some (LEGAL_TIPS ! i)" "anyTrigger ?lt (phrases (LEGAL_TIPS ! i))"
    "\<forall>j < i. \<not> anyTrigger ?lt (phrases (LEGAL_TIPS ! j))" by blast
  have "triggered ?lt (LEGAL_TIPS ! i)" using i(1,3) by (simp add: anyTrigger_triggered)
  moreover have "\<forall>j < i. \<not> triggered ?lt (LEGAL_TIPS ! j)"
  proof (intro allI impI)
    fix j assume "j < i"
    with i(1,4) have "LEGAL_TIPS ! j \<in> set LEGAL_TIPS" "\<not> anyTrigger ?lt (phrases (LEGAL_TIPS ! j))"
      by auto
    then show "\<not> triggered ?lt (LEGAL_TIPS ! j)" by (simp add: anyTrigger_triggered)
  qed
  moreover have "analyzeSpeech spoken = Some (LEGAL_TIPS ! i)"
    using guard i(2) by (simp add: analyzeSpeech_def)
  ultimately show ?thesis using i(1) by blast
qed

text \<open>"I do not consent" holds the phrase "consent" of the tip \<open>consent\<close> (declared
  eleventh) and the phrase "i do not consent" of \<open>user_no_consent\<close> (declared nineteenth);
  the earlier one is returned.\<close>

lemma overlap_consent:
  "triggered (toLowerCase ''I do not consent'') (LEGAL_TIPS ! 10)
   \<and> triggered (toLowerCase ''I do not consent'') (LEGAL_TIPS ! 18)
   \<and> tip_id (LEGAL_TIPS ! 10) = ''consent'' \<and> tip_id (LEGAL_TIPS ! 18) = ''user_no_consent''
   \<and> LEGAL_TIPS ! 10 \<in> set LEGAL_TIPS
   \<and> analyzeSpeech ''I do not consent'' = Some (LEGAL_TIPS ! 10)"
  unfolding triggered_def by code_simp

theorem analyzeSpeech_first_declared_witness:
  "(\<exists>tip \<in> set LEGAL_TIPS. triggered (toLowerCase ''I do not consent'') tip)
   \<and> (\<exists>i < length LEGAL_TIPS.
           analyzeSpeech ''I do not consent'' = Some (LEGAL_TIPS ! i)
         \<and> triggered (toLowerCase ''I do not consent'') (LEGAL_TIPS ! i)
         \<and> (\<forall>j < i. \<not> triggered (toLowerCase ''I do not consent'') (LEGAL_TIPS ! j)))
   \<and> map_option tip_id (analyzeSpeech ''I do not consent'') = Some ''consent''"
proof -
  have h: "\<exists>tip \<in> set LEGAL_TIPS. triggered (toLowerCase ''I do not consent'') tip"
    using overlap_consent by blast
  have "map_option tip_id (analyzeSpeech ''I do not consent'') = Some ''consent''"
    using overlap_consent by simp
  with h analyzeSpeech_first_declared [OF h] show ?thesis by blast
qed

text \<open>
  Claim C9. A transcript whose lower-cased form holds no declared trigger phrase gives
  \<open>None\<close>; the function is total, so nothing is raised. The empty transcript and every
  transcript of white space only are such transcripts: they hold no declared phrase and
  give \<open>None\<close>.
\<close>

theorem analyzeSpeech_no_trigger:
  "((\<forall>tip \<in> set LEGAL_TIPS. \<not> triggered (toLowerCase spoken) tip)
      \<longrightarrow> analyzeSpeech spoken = None)
   \<and> ((\<forall>c \<in> set blank. isWhiteSpace c)
      \<longrightarrow> (\<forall>tip \<in> set LEGAL_TIPS. \<not> triggered (toLowerCase blank) tip)
          \<and> analyzeSpeech blank = None)"
proof (intro conjI impI)
  assume "\<forall>tip \<in> set LEGAL_TIPS. \<not> triggered (toLowerCase spoken) tip"
  then have "scanTips (toLowerCase spoken) LEGAL_TIPS = None"
    by (simp add: scanTips_None_iff anyTrigger_triggered)
  then show "analyzeSpeech spoken = None" by (simp add: analyzeSpeech_def)
next
  assume "\<forall>c \<in> set blank. isWhiteSpace c"
  then have "length (str_trim blank) = 0" by (rule all_ws_trim_empty)
  then show "\<forall>tip \<in> set LEGAL_TIPS. \<not> triggered (toLowerCase blank) tip"
    using triggered_not_blank by blast
next
  assume "\<forall>c \<in> set blank. isWhiteSpace c"
  then have "length (str_trim blank) = 0" by (rule all_ws_trim_empty)
  then show "analyzeSpeech blank = None" by (simp add: analyzeSpeech_def)
qed

lemma no_trigger_examples:
  "(\<forall>tip \<in> set LEGAL_TIPS. \<not> triggered (toLowerCase ''Hello there'') tip)
   \<and> (\<forall>c \<in> set ''  ''. isWhiteSpace c) \<and> (\<forall>c \<in> set ''''. isWhiteSpace c)"
  unfolding triggered_def by code_simp

theorem analyzeSpeech_no_trigger_witness:
  "analyzeSpeech ''Hello there'' = None \<and> analyzeSpeech ''  '' = None
   \<and> analyzeSpeech '''' = None"
  using no_trigger_examples
    analyzeSpeech_no_trigger [of "''Hello there''" "''  ''"]
    analyzeSpeech_no_trigger [of "''Hello there''" "''''"]
  by blast

section \<open>Properties of the mock analysis\<close>

text \<open>
  Claim C6. The quality tier is a function of the confidence alone, defined for every
  confidence: at least 0.9 gives Excellent, from 0.8 up to 0.9 Good, from 0.6 up to 0.8
  Fair, anything below 0.6 Poor; so 0.95, 0.85, 0.65 and 0.3 give Excellent, Good, Fair
  and Poor.
\<close>

theorem determineQuality_tiers:
  "(0.9 \<le> c \<longrightarrow> determineQuality c = Excellent)
   \<and> (0.8 \<le> c \<and> c < 0.9 \<longrightarrow> determineQuality c = Good)
   \<and> (0.6 \<le> c \<and> c < 0.8 \<longrightarrow> determineQuality c = Fair)
   \<and> (c < 0.6 \<longrightarrow> determineQuality c = Poor)
   \<and> determineQuality 0.95 = Excellent \<and> determineQuality 0.85 = Good
   \<and> determineQuality 0.65 = Fair \<and> determineQuality 0.3 = Poor"
  by (simp add: determineQuality_def)

theorem determineQuality_tiers_witness:
  "determineQuality 0.9 = Excellent \<and> determineQuality 0.8 = Good
   \<and> determineQuality 0.6 = Fair \<and> determineQuality 0.59 = Poor"
  using determineQuality_tiers [of "0.9"] determineQuality_tiers [of "0.8"]
    determineQuality_tiers [of "0.6"] determineQuality_tiers [of "0.59"]
  by simp

lemma scenario_kinds:
  "situationType (scenarios ! 0) = ''Police Stop''
   \<and> situationType (scenarios ! 1) = ''Workplace Dispute''
   \<and> situationType (scenarios ! 2) = ''Consumer Rights''
   \<and> situationType (scenarios ! 3) = ''ICE Encounter''
   \<and> urgencyLevel (scenarios ! 3) = Some Critical
   \<and> requiresLegalAttention (scenarios ! 3) = Some True"
  by (simp add: scenarios_def)

lemma extend_fields:
  "Scenario.truncate (Scenario.extend s (AnalysisResult.fields c n)) = s"
  "confidence (Scenario.extend s (AnalysisResult.fields c n)) = c"
  "analysisTimestamp (Scenario.extend s (AnalysisResult.fields c n)) = n"
  "summary (Scenario.extend s (AnalysisResult.fields c n)) = summary s"
  "situationType (Scenario.extend s (AnalysisResult.fields c n)) = situationType s"
  "urgencyLevel (Scenario.extend s (AnalysisResult.fields c n)) = urgencyLevel s"
  "requiresLegalAttention (Scenario.extend s (AnalysisResult.fields c n)) = requiresLegalAttention s"
  by (simp_all add: Scenario.defs AnalysisResult.defs)

text \<open>
  Claim C4. With \<open>police\<close>, \<open>ice\<close>, \<open>work\<close> and \<open>store\<close> standing for "the lower-cased
  transcript holds one of the three keywords of the set", the analysis is the police
  template when \<open>police\<close>; else the ICE template (urgency critical, legal attention
  required) when \<open>ice\<close>; else the workplace template when \<open>work\<close>; else the consumer-rights
  template when \<open>store\<close>; else the police template again. Its confidence is 0.9 every time.
\<close>

theorem generateMockAnalysis_priority:
  fixes now :: int and t :: string and d :: int
  defines "r \<equiv> generateMockAnalysis now t d"
    and "police \<equiv> mentions t ''arrest'' \<or> mentions t ''search'' \<or> mentions t ''probable cause''"
    and "ice \<equiv> mentions t ''ice'' \<or> mentions t ''immigration'' \<or> mentions t ''citizen''"
    and "work \<equiv> mentions t ''workplace'' \<or> mentions t ''supervisor'' \<or> mentions t ''overtime''"
    and "store \<equiv> mentions t ''store'' \<or> mentions t ''return'' \<or> mentions t ''receipt''"
  shows "(police \<longrightarrow> Scenario.truncate r = scenarios ! 0 \<and> situationType r = ''Police Stop'')
   \<and> (\<not> police \<and> ice \<longrightarrow> Scenario.truncate r = scenarios ! 3 \<and> situationType r = ''ICE Encounter''
          \<and> urgencyLevel r = Some Critical \<and> requiresLegalAttention r = Some True)
   \<and> (\<not> police \<and> \<not> ice \<and> work \<longrightarrow>
          Scenario.truncate r = scenarios ! 1 \<and> situationType r = ''Workplace Dispute'')
   \<and> (\<not> police \<and> \<not> ice \<and> \<not> work \<and> store \<longrightarrow>
          Scenario.truncate r = scenarios ! 2 \<and> situationType r = ''Consumer Rights'')
   \<and> (\<not> police \<and> \<not> ice \<and> \<not> work \<and> \<not> store \<longrightarrow>
          Scenario.truncate r = scenarios ! 0 \<and> situationType r = ''Police Stop'')
   \<and> confidence r = 0.9"
  unfolding r_def police_def ice_def work_def store_def
  by (simp add: generateMockAnalysis_def Let_def mentions_def str_includes_sublist
      extend_fields scenario_kinds del: One_nat_def)

lemma mentions_examples:
  "mentions ''They will arrest you and search the car'' ''arrest''
   \<and> mentions ''They will arrest you and search the car'' ''search''
   \<and> \<not> mentions ''They will arrest you and search the car'' ''probable cause''
   \<and> \<not> mentions ''They will arrest you and search the car'' ''ice''
   \<and> \<not> mentions ''They will arrest you and search the car'' ''immigration''
   \<and> \<not> mentions ''They will arrest you and search the car'' ''citizen''
   \<and> \<not> mentions ''They will arrest you and search the car'' ''workplace''
   \<and> \<not> mentions ''They will arrest you and search the car'' ''supervisor''
   \<and> \<not> mentions ''They will arrest you and search the car'' ''overtime''
   \<and> \<not> mentions ''They will arrest you and search the car'' ''store''
   \<and> \<not> mentions ''They will arrest you and search the car'' ''return''
   \<and> \<not> mentions ''They will arrest you and search the car'' ''receipt''
   \<and> \<not> mentions ''ICE asked if I am a citizen'' ''arrest''
   \<and> \<not> mentions ''ICE asked if I am a citizen'' ''search''
   \<and> \<not> mentions ''ICE asked if I am a citizen'' ''probable cause''
   \<and> mentions ''ICE asked if I am a citizen'' ''ice''
   \<and> \<not> mentions ''ICE asked if I am a citizen'' ''immigration''
   \<and> mentions ''ICE asked if I am a citizen'' ''citizen''
   \<and> \<not> mentions ''ICE asked if I am a citizen'' ''workplace''
   \<and> \<not> mentions ''ICE asked if I am a citizen'' ''supervisor''
   \<and> \<not> mentions ''ICE asked if I am a citizen'' ''overtime''
   \<and> \<not> mentions ''ICE asked if I am a citizen'' ''store''
   \<and> \<not> mentions ''ICE asked if I am a citizen'' ''return''
   \<and> \<not> mentions ''ICE asked if I am a citizen'' ''receipt''
   \<and> \<not> mentions ''My supervisor refused to pay overtime'' ''arrest''
   \<and> \<not> mentions ''My supervisor refused to pay overtime'' ''search''
   \<and> \<not> mentions ''My supervisor refused to pay overtime'' ''probable cause''
   \<and> \<not> mentions ''My supervisor refused to pay overtime'' ''ice''
   \<and> \<not> mentions ''My supervisor refused to pay overtime'' ''immigration''
   \<and> \<not> mentions ''My supervisor refused to pay overtime'' ''citizen''
   \<and> \<not> mentions ''My supervisor refused to pay overtime'' ''workplace''
   \<and> mentions ''My supervisor refused to pay overtime'' ''supervisor''
   \<and> mentions ''My supervisor refused to pay overtime'' ''overtime''
   \<and> \<not> mentions ''My supervisor refused to pay overtime'' ''store''
   \<and> \<not> mentions ''My supervisor refused to pay overtime'' ''return''
   \<and> \<not> mentions ''My supervisor refused to pay overtime'' ''receipt''
   \<and> \<not> mentions ''The store refused my return without a receipt'' ''arrest''
   \<and> \<not> mentions ''The store refused my return without a receipt'' ''search''
   \<and> \<not> mentions ''The store refused my return without a receipt'' ''probable cause''
   \<and> \<not> mentions ''The store refused my return without a receipt'' ''ice''
   \<and> \<not> mentions ''The store refused my return without a receipt'' ''immigration''
   \<and> \<not> mentions ''The store refused my return without a receipt'' ''citizen''
   \<and> \<not> mentions ''The store refused my return without a receipt'' ''workplace''
   \<and> \<not> mentions ''The store refused my return without a receipt'' ''supervisor''
   \<and> \<not> mentions ''The store refused my return without a receipt'' ''overtime''
   \<and> mentions ''The store refused my return without a receipt'' ''store''
   \<and> mentions ''The store refused my return without a receipt'' ''return''
   \<and> mentions ''The store refused my return without a receipt'' ''receipt''
   \<and> \<not> mentions ''Hello there'' ''arrest''
   \<and> \<not> mentions ''Hello there'' ''search''
   \<and> \<not> mentions ''Hello there'' ''probable cause''
   \<and> \<not> mentions ''Hello there'' ''ice''
   \<and> \<not> mentions ''Hello there'' ''immigration''
   \<and> \<not> mentions ''Hello there'' ''citizen''
   \<and> \<not> mentions ''Hello there'' ''workplace''
   \<and> \<not> mentions ''Hello there'' ''supervisor''
   \<and> \<not> mentions ''Hello there'' ''overtime''
   \<and> \<not> mentions ''Hello there'' ''store''
   \<and> \<not> mentions ''Hello there'' ''return''
   \<and> \<not> mentions ''Hello there'' ''receipt''"
  unfolding mentions_def by code_simp

theorem generateMockAnalysis_priority_witness:
  "situationType (generateMockAnalysis 0 ''They will arrest you and search the car'' 60) = ''Police Stop''
   \<and> situationType (generateMockAnalysis 0 ''ICE asked if I am a citizen'' 60) = ''ICE Encounter''
   \<and> situationType (generateMockAnalysis 0 ''My supervisor refused to pay overtime'' 60) = ''Workplace Dispute''
   \<and> situationType (generateMockAnalysis 0 ''The store refused my return without a receipt'' 60) = ''Consumer Rights''
   \<and> situationType (generateMockAnalysis 0 ''Hello there'' 60) = ''Police Stop''
   \<and> urgencyLevel (generateMockAnalysis 0 ''ICE asked if I am a citizen'' 60) = Some Critical
   \<and> requiresLegalAttention (generateMockAnalysis 0 ''ICE asked if I am a citizen'' 60) = Some True
   \<and> confidence (generateMockAnalysis 0 ''Hello there'' 60) = 0.9"
  using mentions_examples
    generateMockAnalysis_priority [of "''They will arrest you and search the car''" 0 60]
    generateMockAnalysis_priority [of "''ICE asked if I am a citizen''" 0 60]
    generateMockAnalysis_priority [of "''My supervisor refused to pay overtime''" 0 60]
    generateMockAnalysis_priority [of "''The store refused my return without a receipt''" 0 60]
    generateMockAnalysis_priority [of "''Hello there''" 0 60]
  by simp

section \<open>Properties of the session manager\<close>

lemma findIndex_None_iff: "findIndex p xs = None \<longleftrightarrow> (\<forall>x \<in> set xs. \<not> p x)"
  by (induction xs) auto

lemma findIndex_Some:
  "findIndex p xs = Some i \<Longrightarrow> i < length xs \<and> p (xs ! i) \<and> (\<forall>j < i. \<not> p (xs ! j))"
proof (induction xs arbitrary: i)
  case Nil
  then show ?case by simp
next
  case (Cons x xs)
  show ?case
  proof (cases "p x")
    case True
    with Cons.prems show ?thesis by simp
  next
    case False
    with Cons.prems obtain k where k: "findIndex p xs = Some k" "i = Suc k" by auto
    from Cons.IH [OF k(1)] False k(2) show ?thesis
      by (auto simp: less_Suc_eq_0_disj)
  qed
qed

lemma findIndex_split:
  assumes "findIndex p xs = Some i"
  shows "xs = take i xs @ (xs ! i) # drop (Suc i) xs \<and> (\<forall>x \<in> set (take i xs). \<not> p x)"
proof -
  from findIndex_Some [OF assms] have i: "i < length xs" and before: "\<forall>j < i. \<not> p (xs ! j)"
    by auto
  from i have "xs = take i xs @ (xs ! i) # drop (Suc i) xs" by (simp add: id_take_nth_drop)
  moreover have "\<forall>x \<in> set (take i xs). \<not> p x"
  proof
    fix x assume "x \<in> set (take i xs)"
    then obtain j where "j < length (take i xs)" "take i xs ! j = x" by (auto simp: in_set_conv_nth)
    with i before show "\<not> p x" by auto
  qed
  ultimately show ?thesis by blast
qed

lemma findIndex_in_set:
  "x \<in> set xs \<Longrightarrow> p x \<Longrightarrow> \<exists>i. findIndex p xs = Some i"
  using findIndex_None_iff [of p xs] by (cases "findIndex p xs") auto


text \<open>
  Claim C2, as the code has it. \<open>startSession\<close> has no failing branch: whatever the slot
  holds, it returns a fresh session with the time-derived id and stores that session in the
  slot, replacing a session already there; the collection and the listeners are left alone.
  The slot holds one session, so a manager never has two active sessions.
\<close>

theorem startSession_replaces_slot:
  "currentSession (fst (startSession metadata now m)) = Some (snd (startSession metadata now m))
   \<and> session_id (snd (startSession metadata now m)) = ''session_'' @ showInt (getTime now)
   \<and> status (snd (startSession metadata now m)) = Processing
   \<and> recordingStartTime (fst (startSession metadata now m)) = getTime now
   \<and> sessions (fst (startSession metadata now m)) = sessions m
   \<and> delivered (fst (startSession metadata now m)) = delivered m"
  by (simp add: startSession_def Let_def)

text \<open>The claim as stated fails: with a session active (started at time 1000), a second
  \<open>startSession\<close> (at time 2000) returns a session, puts it into the slot in place of the
  first, and the first is in the collection neither before nor after.\<close>

theorem startSession_overwrites_counterexample:
  "session_id (snd (startSession noMetadata (dateAt 1000) emptyManager)) = ''session_1000''
   \<and> currentSession (fst (startSession noMetadata (dateAt 1000) emptyManager))
       = Some (snd (startSession noMetadata (dateAt 1000) emptyManager))
   \<and> session_id (snd (startSession noMetadata (dateAt 2000)
         (fst (startSession noMetadata (dateAt 1000) emptyManager)))) = ''session_2000''
   \<and> currentSession (fst (startSession noMetadata (dateAt 2000)
         (fst (startSession noMetadata (dateAt 1000) emptyManager))))
       = Some (snd (startSession noMetadata (dateAt 2000)
           (fst (startSession noMetadata (dateAt 1000) emptyManager))))
   \<and> currentSession (fst (startSession noMetadata (dateAt 2000)
         (fst (startSession noMetadata (dateAt 1000) emptyManager))))
       \<noteq> currentSession (fst (startSession noMetadata (dateAt 1000) emptyManager))
   \<and> sessions (fst (startSession noMetadata (dateAt 2000)
         (fst (startSession noMetadata (dateAt 1000) emptyManager)))) = []"
  by (simp add: startSession_def Let_def dateAt_def emptyManager_def showInt_def
      showNat.simps digitChar_def)

lemma deleteSession_found:
  assumes "findIndex (\<lambda>s. session_id s = sid) (sessions m) = Some i"
  shows "deleteSession sid m =
           (m\<lparr>sessions := take i (sessions m) @ drop (Suc i) (sessions m),
              delivered := delivered m @ [take i (sessions m) @ drop (Suc i) (sessions m)]\<rparr>, True)"
  using assms by (simp add: deleteSession_def notifyListeners_def)

lemma deleteSession_unknown:
  "sid \<notin> session_id ` set (sessions m) \<Longrightarrow> deleteSession sid m = (m, False)"
proof -
  assume "sid \<notin> session_id ` set (sessions m)"
  then have "\<forall>s \<in> set (sessions m). \<not> session_id s = sid" by auto
  then have "findIndex (\<lambda>s. session_id s = sid) (sessions m) = None"
    by (simp add: findIndex_None_iff)
  then show ?thesis by (simp add: deleteSession_def)
qed

text \<open>
  Claim C8, as the code has it. \<open>endSession\<close> without an active session returns \<open>None\<close>
  and leaves the manager as it was; \<open>deleteSession\<close> with an id that no session of the
  collection carries returns \<open>False\<close> and leaves the manager as it was. With an id that
  is carried, \<open>deleteSession\<close> returns \<open>True\<close>, takes the first session with that id
  out of the collection and nothing else, and hands the listeners the collection without
  it; on an initialised manager \<open>getSessions\<close> then returns that collection. A second
  \<open>deleteSession\<close> with the id returns \<open>False\<close> when no session behind the removed one
  carried the id, and the id is then gone from the collection; when one did, the second
  call returns \<open>True\<close> again.
\<close>

theorem sentinels_and_delete:
  "(currentSession m = None \<longrightarrow> endSession now m = (m, None))
   \<and> (sid \<notin> session_id ` set (sessions m) \<longrightarrow> deleteSession sid m = (m, False))
   \<and> (sid \<in> session_id ` set (sessions m) \<longrightarrow>
        (\<exists>m' before s after.
            deleteSession sid m = (m', True)
          \<and> sessions m = before @ s # after \<and> session_id s = sid
          \<and> sid \<notin> session_id ` set before
          \<and> sessions m' = before @ after
          \<and> delivered m' = delivered m @ [sessions m']
          \<and> (isInitialized m \<longrightarrow> getSessions loaded m' = (m', sessions m'))
          \<and> (sid \<notin> session_id ` set after \<longrightarrow>
                sid \<notin> session_id ` set (sessions m') \<and> deleteSession sid m' = (m', False))
          \<and> (sid \<in> session_id ` set after \<longrightarrow> snd (deleteSession sid m') = True)))"
proof (intro conjI impI)
  assume "currentSession m = None"
  then show "endSession now m = (m, None)" by (simp add: endSession_def)
next
  assume "sid \<notin> session_id ` set (sessions m)"
  then show "deleteSession sid m = (m, False)" by (rule deleteSession_unknown)
next
  assume "sid \<in> session_id ` set (sessions m)"
  then obtain x where "x \<in> set (sessions m)" "session_id x = sid" by auto
  from findIndex_in_set [of x "sessions m" "\<lambda>s. session_id s = sid", OF this]
  obtain i where i: "findIndex (\<lambda>s. session_id s = sid) (sessions m) = Some i" by blast
  let ?before = "take i (sessions m)" and ?s = "sessions m ! i"
    and ?after = "drop (Suc i) (sessions m)"
  let ?m' = "m\<lparr>sessions := ?before @ ?after, delivered := delivered m @ [?before @ ?after]\<rparr>"
  from findIndex_Some [OF i] have sid: "session_id ?s = sid" by simp
  from findIndex_split [OF i] have split: "sessions m = ?before @ ?s # ?after"
    and nb: "sid \<notin> session_id ` set ?before" by auto
  have del: "deleteSession sid m = (?m', True)" by (rule deleteSession_found [OF i])
  have get: "isInitialized m \<longrightarrow> getSessions loaded ?m' = (?m', sessions ?m')"
    by (simp add: getSessions_def)
  have once: "sid \<notin> session_id ` set ?after \<longrightarrow>
      sid \<notin> session_id ` set (sessions ?m') \<and> deleteSession sid ?m' = (?m', False)"
  proof
    assume "sid \<notin> session_id ` set ?after"
    with nb have gone: "sid \<notin> session_id ` set (sessions ?m')" by auto
    from deleteSession_unknown [OF gone] gone
    show "sid \<notin> session_id ` set (sessions ?m') \<and> deleteSession sid ?m' = (?m', False)"
      by simp
  qed
  have again: "sid \<in> session_id ` set ?after \<longrightarrow> snd (deleteSession sid ?m') = True"
  proof
    assume "sid \<in> session_id ` set ?after"
    then obtain y where "y \<in> set (sessions ?m')" "session_id y = sid" by auto
    from findIndex_in_set [of y "sessions ?m'" "\<lambda>s. session_id s = sid", OF this]
    obtain k where "findIndex (\<lambda>s. session_id s = sid) (sessions ?m') = Some k" by blast
    from deleteSession_found [OF this] show "snd (deleteSession sid ?m') = True" by simp
  qed
  show "\<exists>m' before s after.
            deleteSession sid m = (m', True)
          \<and> sessions m = before @ s # after \<and> session_id s = sid
          \<and> sid \<notin> session_id ` set before
          \<and> sessions m' = before @ after
          \<and> delivered m' = delivered m @ [sessions m']
          \<and> (isInitialized m \<longrightarrow> getSessions loaded m' = (m', sessions m'))
          \<and> (sid \<notin> session_id ` set after \<longrightarrow>
                sid \<notin> session_id ` set (sessions m') \<and> deleteSession sid m' = (m', False))
          \<and> (sid \<in> session_id ` set after \<longrightarrow> snd (deleteSession sid m') = True)"
    apply (rule exI [of _ ?m'], rule exI [of _ ?before], rule exI [of _ ?s],
        rule exI [of _ ?after])
    using del split sid nb get once again by simp
qed























lemmas example_defs = emptyManager_def dateAt_def noMetadata_def recordingManager_def
  twoSessions_def failingRun_def startSession_def saveSession_def notifyListeners_def
  showInt_def showNat.simps digitChar_def formatDuration_def padStart_def Let_def

lemma twoSessions_ids:
  "map session_id (sessions twoSessions) = [''session_3000'', ''session_2000'']
   \<and> map duration (sessions twoSessions) = [''1:00'', ''2:34'']
   \<and> isInitialized twoSessions"
  by (simp add: example_defs)

lemma sameTimeSaves_ids:
  "map session_id (sessions sameTimeSaves) = [''session_7000'', ''session_7000'']"
  by (simp add: sameTimeSaves_def example_defs)

theorem sentinels_and_delete_witness:
  "endSession (dateAt 5000) emptyManager = (emptyManager, None)
   \<and> deleteSession ''session_7'' twoSessions = (twoSessions, False)
   \<and> (\<exists>m'. deleteSession ''session_2000'' twoSessions = (m', True)
          \<and> map session_id (sessions m') = [''session_3000'']
          \<and> last (delivered m') = sessions m'
          \<and> getSessions [] m' = (m', sessions m')
          \<and> deleteSession ''session_2000'' m' = (m', False))
   \<and> (\<exists>m'. deleteSession ''session_7000'' sameTimeSaves = (m', True)
          \<and> map session_id (sessions m') = [''session_7000'']
          \<and> snd (deleteSession ''session_7000'' m') = True)"
proof -
  have none: "currentSession emptyManager = None" by (simp add: emptyManager_def)
  have unknown: "''session_7'' \<notin> session_id ` set (sessions twoSessions)"
    using twoSessions_ids by (simp flip: set_map)
  have known: "''session_2000'' \<in> session_id ` set (sessions twoSessions)"
    using twoSessions_ids by (simp flip: set_map)
  have init: "isInitialized twoSessions" using twoSessions_ids by simp
  have known7: "''session_7000'' \<in> session_id ` set (sessions sameTimeSaves)"
    using sameTimeSaves_ids by (simp flip: set_map)
  note first = sentinels_and_delete [where m = emptyManager and now = "dateAt 5000",
      THEN conjunct1, THEN mp, OF none]
  note second = sentinels_and_delete [where m = twoSessions and sid = "''session_7''",
      THEN conjunct2, THEN conjunct1, THEN mp, OF unknown]
  note third = sentinels_and_delete [where m = twoSessions and sid = "''session_2000''"
      and loaded = "[]", THEN conjunct2, THEN conjunct2, THEN mp, OF known]
  from third init obtain m' where d: "deleteSession ''session_2000'' twoSessions = (m', True)"
    "delivered m' = delivered twoSessions @ [sessions m']"
    "getSessions [] m' = (m', sessions m')"
    by (elim exE conjE) simp
  from d(1) have "m' = fst (deleteSession ''session_2000'' twoSessions)" by simp
  then have ids: "map session_id (sessions m') = [''session_3000'']"
    by (simp add: deleteSession_def notifyListeners_def twoSessions_def example_defs)
  then have gone: "''session_2000'' \<notin> session_id ` set (sessions m')"
    by (simp flip: set_map)
  note fourth = sentinels_and_delete [where m = m' and sid = "''session_2000''",
      THEN conjunct2, THEN conjunct1, THEN mp, OF gone]
  from d(2) have lst: "last (delivered m') = sessions m'" by simp
  note fifth = sentinels_and_delete [where m = sameTimeSaves and sid = "''session_7000''"
      and loaded = "[]", THEN conjunct2, THEN conjunct2, THEN mp, OF known7]
  from fifth obtain m7 where e: "deleteSession ''session_7000'' sameTimeSaves = (m7, True)"
    by (elim exE conjE) simp
  from e have "m7 = fst (deleteSession ''session_7000'' sameTimeSaves)" by simp
  then have ids7: "map session_id (sessions m7) = [''session_7000'']"
    by (simp add: deleteSession_def notifyListeners_def sameTimeSaves_def example_defs)
  then have known7': "''session_7000'' \<in> session_id ` set (sessions m7)"
    by (simp flip: set_map)
  note sixth = sentinels_and_delete [where m = m7 and sid = "''session_7000''"
      and loaded = "[]", THEN conjunct2, THEN conjunct2, THEN mp, OF known7']
  from sixth obtain m8 where "deleteSession ''session_7000'' m7 = (m8, True)"
    by (elim exE conjE) simp
  then have again: "snd (deleteSession ''session_7000'' m7) = True" by simp
  show ?thesis
  proof (intro conjI exI)
    show "endSession (dateAt 5000) emptyManager = (emptyManager, None)" by (rule first)
    show "deleteSession ''session_7'' twoSessions = (twoSessions, False)" by (rule second)
    show "deleteSession ''session_2000'' twoSessions = (m', True)" by (rule d(1))
    show "map session_id (sessions m') = [''session_3000'']" by (rule ids)
    show "last (delivered m') = sessions m'" by (rule lst)
    show "getSessions [] m' = (m', sessions m')" by (rule d(3))
    show "deleteSession ''session_2000'' m' = (m', False)" by (rule fourth)
    show "deleteSession ''session_7000'' sameTimeSaves = (m7, True)" by (rule e)
    show "map session_id (sessions m7) = [''session_7000'']" by (rule ids7)
    show "snd (deleteSession ''session_7000'' m7) = True" by (rule again)
  qed
qed

text \<open>The claim as stated fails: after two \<open>saveSession\<close> calls at the same clock
  reading, both sessions carry the id "session_7000", and deleting that id twice returns
  \<open>True\<close> both times.\<close>

theorem deleteSession_twice_counterexample:
  "map session_id (sessions sameTimeSaves) = [''session_7000'', ''session_7000'']
   \<and> snd (deleteSession ''session_7000'' sameTimeSaves) = True
   \<and> snd (deleteSession ''session_7000'' (fst (deleteSession ''session_7000'' sameTimeSaves)))
       = True"
  by (simp add: sameTimeSaves_def deleteSession_def example_defs)







section \<open>Properties of the advisory component\<close>

lemma tipTimeout_detectPhrase:
  "tipTimeout (detectPhrase cl phrase tip st) =
     Some \<lparr>hideDelay = (case urgency tip of High \<Rightarrow> 12000 | Medium \<Rightarrow> 10000 | Low \<Rightarrow> 8000),
           timerTip = tip, closureTip = seenCurrentTip cl\<rparr>"
  by (cases "urgency tip") (simp_all add: detectPhrase_def)

lemma timerOwned_step: "timerOwned st \<Longrightarrow> timerOwned (step st e)"
  by (cases e)
    (auto simp: timerOwned_def processDetectedSpeech_def detectPhrase_def timerFires_def
      dismissTip_def startListening_def stopListening_def split: option.splits)

lemma timerOwned_runEvents: "timerOwned st \<Longrightarrow> timerOwned (runEvents es st)"
  unfolding runEvents_def by (induction es arbitrary: st) (simp_all add: timerOwned_step)

lemma timerOwned_initial: "timerOwned initialComponent"
  by (simp add: timerOwned_def initialComponent_def)

text \<open>The callback tests the tip its closure saw, which is the value of the render that made
  the closure. Made while no tip was shown, the callback leaves the detected tip on screen,
  whatever the tip and the state; made while a tip with the same id was shown, it clears
  the tip.\<close>

lemma closure_without_tip_keeps_tip:
  "seenCurrentTip cl = None \<Longrightarrow> currentTip (timerFires (detectPhrase cl phrase tip st)) = Some tip"
  by (simp add: timerFires_def detectPhrase_def)

lemma closure_with_tip_clears_tip:
  "map_option tip_id (seenCurrentTip cl) = Some (tip_id tip)
   \<Longrightarrow> currentTip (timerFires (detectPhrase cl phrase tip st)) = None"
  by (simp add: timerFires_def detectPhrase_def)

lemma table_entries:
  "tip_id (LEGAL_TIPS ! 0) = ''id_request'' \<and> urgency (LEGAL_TIPS ! 0) = Medium
   \<and> tip_id (LEGAL_TIPS ! 1) = ''search_request'' \<and> urgency (LEGAL_TIPS ! 1) = High
   \<and> tip_id (LEGAL_TIPS ! 4) = ''why_stopped'' \<and> urgency (LEGAL_TIPS ! 4) = Low"
  by (simp add: LEGAL_TIPS_def)

lemma speech_why_stopped:
  "analyzeSpeech ''Do you know why I pulled you over?'' = Some (LEGAL_TIPS ! 4)"
  by code_simp

lemma runEvents_simps:
  "runEvents [] st = st" "runEvents (e # es) st = runEvents es (step st e)"
  by (simp_all add: runEvents_def)

text \<open>The delays of the three urgencies, on tips of the table.\<close>

lemma hideDelay_examples:
  "map_option hideDelay (tipTimeout (detectPhrase closureIdle ''license'' (LEGAL_TIPS ! 0)
        initialComponent)) = Some 10000
   \<and> map_option hideDelay (tipTimeout (detectPhrase closureIdle ''search'' (LEGAL_TIPS ! 1)
        initialComponent)) = Some 12000
   \<and> map_option hideDelay (tipTimeout (detectPhrase closureIdle ''know why'' (LEGAL_TIPS ! 4)
        initialComponent)) = Some 8000"
  using table_entries by (simp add: tipTimeout_detectPhrase)

text \<open>The component after listening has started and the sentence has been recognised.\<close>

lemma speechAfterStart_state:
  "runEvents speechAfterStart initialComponent =
     \<lparr>currentTip = Some (LEGAL_TIPS ! 4), isListening = True,
      detectedPhrases = [''Do you know why I pulled you over?''],
      tipHistory = [LEGAL_TIPS ! 4],
      tipTimeout = Some \<lparr>hideDelay = 8000, timerTip = LEGAL_TIPS ! 4, closureTip = None\<rparr>,
      spokenTips = [LEGAL_TIPS ! 4], reportedTips = [LEGAL_TIPS ! 4]\<rparr>"
  using table_entries
  by (simp add: speechAfterStart_def runEvents_simps startListening_def closureAtStart_def
      initialComponent_def processDetectedSpeech_def speech_why_stopped detectPhrase_def
      slice_last_def)

text \<open>
  Claim C3. The delays are as claimed: a detection schedules the only pending timer with
  delay 12000, 10000 or 8000 by the urgency of the tip (\<open>tipTimeout_detectPhrase\<close>). The
  dismissal is not: the timer's callback compares the id of its tip with the
  \<^verbatim>\<open>currentTip\<close> of the closure that made it, not with the tip on screen. The speech
  callback is registered by the \<^verbatim>\<open>startListening\<close> of the render in which recording
  began, where no tip is shown. So when listening starts and "Do you know why I pulled you
  over?" is recognised, the tip \<open>why_stopped\<close> (urgency low) is shown and its timer is
  scheduled with delay 8000; when that timer fires, with the tip that scheduled it still
  the visible one, the tip is not cleared: it stays on screen and no timer is pending.
\<close>

theorem autoHide_stale_closure:
  "analyzeSpeech ''Do you know why I pulled you over?'' = Some (LEGAL_TIPS ! 4)
   \<and> tip_id (LEGAL_TIPS ! 4) = ''why_stopped'' \<and> urgency (LEGAL_TIPS ! 4) = Low
   \<and> currentTip (runEvents speechAfterStart initialComponent) = Some (LEGAL_TIPS ! 4)
   \<and> tipTimeout (runEvents speechAfterStart initialComponent)
        = Some \<lparr>hideDelay = 8000, timerTip = LEGAL_TIPS ! 4, closureTip = None\<rparr>
   \<and> currentTip (timerFires (runEvents speechAfterStart initialComponent)) = Some (LEGAL_TIPS ! 4)
   \<and> tipTimeout (timerFires (runEvents speechAfterStart initialComponent)) = None"
  using table_entries speech_why_stopped
  by (simp add: speechAfterStart_state timerFires_def)

text \<open>The history after one event, and after a sequence of events none of which empties
  it.\<close>

lemma tipHistory_step:
  "tipHistory (step st e) =
     (if clearsHistory e then []
      else tipHistory st @ (case detectedTip e of None \<Rightarrow> [] | Some tip \<Rightarrow> [tip]))"
  by (cases e)
    (simp_all add: processDetectedSpeech_def detectPhrase_def timerFires_def dismissTip_def
      startListening_def stopListening_def split: option.splits)

lemma tipHistory_runEvents:
  "\<not> list_ex clearsHistory es
   \<Longrightarrow> tipHistory (runEvents es st) = tipHistory st @ List.map_filter detectedTip es"
proof (induction es arbitrary: st)
  case Nil
  show ?case by (simp add: runEvents_simps List.map_filter_simps)
next
  case (Cons e es)
  then have e: "\<not> clearsHistory e" and es: "\<not> list_ex clearsHistory es" by simp_all
  show ?case
    by (cases "detectedTip e")
      (simp_all add: runEvents_simps Cons.IH [OF es] tipHistory_step e List.map_filter_simps)
qed

text \<open>
  Claim C7, as the code has it. The history of detected tips is \<open>tipHistory\<close>. It is
  emptied when listening starts, and it is not capped: an event that detects a tip (a
  recognised text in which the matcher finds a tip, or a call of \<open>detectPhrase\<close>) appends
  that tip, and every other event leaves the history as it is. So after any sequence of
  events in which listening is not started, the history is the history before followed by
  all the tips detected, in detection order, and its length has grown by the number of
  detections.
\<close>

theorem tipHistory_appends:
  "tipHistory (step st e) =
     (if clearsHistory e then []
      else tipHistory st @ (case detectedTip e of None \<Rightarrow> [] | Some tip \<Rightarrow> [tip]))
   \<and> (\<not> list_ex clearsHistory es \<longrightarrow>
        tipHistory (runEvents es st) = tipHistory st @ List.map_filter detectedTip es
      \<and> length (tipHistory (runEvents es st))
          = length (tipHistory st) + length (List.map_filter detectedTip es))"
  by (simp add: tipHistory_step tipHistory_runEvents)

lemma speechThenFour_detections:
  "\<not> list_ex clearsHistory speechThenFour
   \<and> List.map_filter detectedTip speechThenFour
       = [LEGAL_TIPS ! 4, LEGAL_TIPS ! 0, LEGAL_TIPS ! 1, LEGAL_TIPS ! 2, LEGAL_TIPS ! 3]"
  by (simp add: speechThenFour_def fourDetections_def List.map_filter_simps speech_why_stopped)

theorem tipHistory_appends_witness:
  "\<not> list_ex clearsHistory speechThenFour
   \<and> tipHistory (runEvents speechThenFour initialComponent)
       = [LEGAL_TIPS ! 4, LEGAL_TIPS ! 0, LEGAL_TIPS ! 1, LEGAL_TIPS ! 2, LEGAL_TIPS ! 3]
   \<and> length (tipHistory (runEvents speechThenFour initialComponent)) = 5
   \<and> clearsHistory (Start closureAtStart)
   \<and> tipHistory (step (runEvents speechThenFour initialComponent) (Start closureAtStart)) = []"
proof -
  note t = tipHistory_appends [where es = speechThenFour and st = initialComponent]
  have quiet: "\<not> list_ex clearsHistory speechThenFour"
    using speechThenFour_detections by simp
  from t [THEN conjunct2, THEN mp, OF quiet] speechThenFour_detections
  have h: "tipHistory (runEvents speechThenFour initialComponent)
       = [LEGAL_TIPS ! 4, LEGAL_TIPS ! 0, LEGAL_TIPS ! 1, LEGAL_TIPS ! 2, LEGAL_TIPS ! 3]"
    by (simp add: initialComponent_def)
  have c: "clearsHistory (Start closureAtStart)" by (simp add: closureAtStart_def)
  from tipHistory_appends [where st = "runEvents speechThenFour initialComponent"
      and e = "Start closureAtStart", THEN conjunct1] c
  have s: "tipHistory (step (runEvents speechThenFour initialComponent) (Start closureAtStart)) = []"
    by simp
  from quiet h c s show ?thesis by simp
qed

text \<open>The claim as stated fails: after four detections the history holds four tips.\<close>

theorem tipHistory_unbounded_counterexample:
  "tipHistory (runEvents fourDetections initialComponent)
     = [LEGAL_TIPS ! 0, LEGAL_TIPS ! 1, LEGAL_TIPS ! 2, LEGAL_TIPS ! 3]
   \<and> length (tipHistory (runEvents fourDetections initialComponent)) = 4
   \<and> \<not> length (tipHistory (runEvents fourDetections initialComponent)) \<le> 3"
  by (simp add: fourDetections_def runEvents_simps detectPhrase_def initialComponent_def)

end
